theory Spec2Isabelle
  imports Complex_Main
begin

section \<open>Python values used by the service layer\<close>

text \<open>
  A Python \<open>str\<close> is modelled as a \<open>string\<close> whose characters are the code points
  below 256 (one \<open>char\<close> per character, so \<open>length\<close> is Python's \<open>len\<close>).
  \<open>str.isdigit\<close> and the whitespace of \<open>str.strip\<close> are written out for that range:
  the digits are \<open>0\<close>..\<open>9\<close> and the superscripts U+00B2, U+00B3, U+00B9; the whitespace
  characters are U+0009..U+000D, U+001C..U+0020, U+0085 and U+00A0.
\<close>

definition isdigit_char :: "char \<Rightarrow> bool" where
  "isdigit_char c =
     (let n = (of_char c :: nat)
      in (48 \<le> n \<and> n \<le> 57) \<or> n = 178 \<or> n = 179 \<or> n = 185)"

definition isdigit :: "string \<Rightarrow> bool" where
  "isdigit s = (s \<noteq> [] \<and> list_all isdigit_char s)"

definition isspace_char :: "char \<Rightarrow> bool" where
  "isspace_char c =
     (let n = (of_char c :: nat)
      in (9 \<le> n \<and> n \<le> 13) \<or> (28 \<le> n \<and> n \<le> 32) \<or> n = 133 \<or> n = 160)"

definition strip :: "string \<Rightarrow> string" where
  "strip s = rev (dropWhile isspace_char (rev (dropWhile isspace_char s)))"

text \<open>\<open>str(n)\<close> for an integer: its decimal digits.\<close>

definition digit_char :: "nat \<Rightarrow> char" where
  "digit_char n = char_of (48 + n)"

fun str_nat :: "nat \<Rightarrow> string" where
  "str_nat n = (if n < 10 then [digit_char n] else str_nat (n div 10) @ [digit_char (n mod 10)])"

declare str_nat.simps [simp del]

definition str_int :: "int \<Rightarrow> string" where
  "str_int i = (if i < 0 then CHR ''-'' # str_nat (nat (- i)) else str_nat (nat i))"

text \<open>
  A \<open>datetime\<close> is the number of microseconds since an epoch; the difference of two is
  a \<open>timedelta\<close>, whose \<open>.days\<close> is the floor of the difference in days.
\<close>

definition microseconds_per_day :: int where
  "microseconds_per_day = 86400000000"

definition timedelta_days :: "int \<Rightarrow> int" where
  "timedelta_days d = d * microseconds_per_day"

definition days_of :: "int \<Rightarrow> int" where
  "days_of delta = delta div microseconds_per_day"

text \<open>
  Money is a Python \<open>float\<close>. Every amount the fee schedule produces is a multiple of
  one half below \<open>2 ^ 53\<close>, which binary floating point represents and adds exactly,
  so amounts are modelled as rationals. \<open>round(x, 2)\<close> rounds to the nearest
  hundredth, ties to the even one.
\<close>

definition round2 :: "rat \<Rightarrow> rat" where
  "round2 x =
     (let y = x * 100; f = \<lfloor>y\<rfloor>; d = y - of_int f
      in (if d < 1 / 2 then of_int f
          else if 1 / 2 < d then of_int (f + 1)
          else if even f then of_int f else of_int (f + 1)) / 100)"

text \<open>
  The values a caller or a payment gateway can hand to the service: \<open>None\<close>, booleans,
  integers, floats (with the infinities and not-a-number), strings, lists, and mappings
  with string keys.
\<close>

datatype pyfloat = Finite rat | PosInf | NegInf | NaN

datatype pyval =
    PyNone
  | PyBool bool
  | PyInt int
  | PyFloat pyfloat
  | PyStr string
  | PyList "pyval list"
  | PyDict "(string \<times> pyval) list"

datatype py_error = AttributeError | KeyError | TypeError

text \<open>Truth value testing, as \<open>not resp\<close> does it.\<close>

fun truthy :: "pyval \<Rightarrow> bool" where
  "truthy PyNone = False"
| "truthy (PyBool b) = b"
| "truthy (PyInt i) = (i \<noteq> 0)"
| "truthy (PyFloat f) = (f \<noteq> Finite 0)"
| "truthy (PyStr s) = (s \<noteq> [])"
| "truthy (PyList xs) = (xs \<noteq> [])"
| "truthy (PyDict kvs) = (kvs \<noteq> [])"

fun is_str :: "pyval \<Rightarrow> bool" where
  "is_str (PyStr s) = True"
| "is_str v = False"

fun is_dict :: "pyval \<Rightarrow> bool" where
  "is_dict (PyDict kvs) = True"
| "is_dict v = False"

text \<open>\<open>resp.get(k)\<close>: only a mapping has the method.\<close>

fun py_get :: "pyval \<Rightarrow> string \<Rightarrow> py_error + pyval" where
  "py_get (PyDict kvs) k = Inr (case map_of kvs k of Some v \<Rightarrow> v | None \<Rightarrow> PyNone)"
| "py_get v k = Inl AttributeError"

text \<open>\<open>resp[k]\<close>: \<open>KeyError\<close> on a mapping without the key.\<close>

fun py_item :: "pyval \<Rightarrow> string \<Rightarrow> py_error + pyval" where
  "py_item (PyDict kvs) k = (case map_of kvs k of Some v \<Rightarrow> Inr v | None \<Rightarrow> Inl KeyError)"
| "py_item v k = Inl TypeError"

text \<open>
  \<open>float(amount)\<close>, \<open>None\<close> where it raises. An integer converts when it rounds to a
  finite double, that is below \<open>2 ^ 1024 - 2 ^ 970\<close> in magnitude; the value is kept
  exact, which agrees with the double on every comparison against 0 and 15.
\<close>

fun py_float :: "(string \<Rightarrow> pyfloat option) \<Rightarrow> pyval \<Rightarrow> pyfloat option" where
  "py_float parse PyNone = None"
| "py_float parse (PyBool b) = Some (Finite (if b then 1 else 0))"
| "py_float parse (PyInt i) =
     (if \<bar>i\<bar> < 2 ^ 1024 - 2 ^ 970 then Some (Finite (of_int i)) else None)"
| "py_float parse (PyFloat f) = Some f"
| "py_float parse (PyStr s) = parse s"
| "py_float parse (PyList xs) = None"
| "py_float parse (PyDict kvs) = None"

text \<open>Float comparison: every comparison with not-a-number is false.\<close>

fun float_le :: "pyfloat \<Rightarrow> pyfloat \<Rightarrow> bool" where
  "float_le NaN y = False"
| "float_le x NaN = False"
| "float_le NegInf y = True"
| "float_le x PosInf = True"
| "float_le (Finite a) (Finite b) = (a \<le> b)"
| "float_le x y = False"

definition float_gt :: "pyfloat \<Rightarrow> pyfloat \<Rightarrow> bool" where
  "float_gt x y = (float_le y x \<and> x \<noteq> y)"

fun round2_float :: "pyfloat \<Rightarrow> pyfloat" where
  "round2_float (Finite q) = Finite (round2 q)"
| "round2_float f = f"

section \<open>The store\<close>

record book =
  book_id :: int
  title :: string
  author :: string
  isbn :: string
  total_copies :: int
  available_copies :: int

record borrow_record =
  rec_patron_id :: string
  rec_book_id :: int
  borrow_date :: int
  due_date :: int
  return_date :: "int option"

record store =
  books :: "book list"
  borrow_records :: "borrow_record list"

text \<open>
  What a call finds around it: the clock, two functions of the standard library (the
  date formatter \<open>strftime("%Y-%m-%d")\<close>, and \<open>float\<close> on a string, \<open>None\<close> where it
  raises \<open>ValueError\<close>), and whether a write of the data-access layer fails (it then
  reports \<open>False\<close> and writes nothing). Two more things are left to it because this
  theory cannot fix them:
  \<^item> \<open>set_return_date\<close>, what the store's return-date write does to the list of borrow
    records. The specification names the operation and says that it sets the return
    timestamp of the matching unreturned record; it does not say which records are
    written when a patron holds several unreturned records of one book.
  \<^item> \<open>le_sign_text\<close>, the three characters U+00E2, U+2030, U+00A4 of the refund range
    message. U+2030 is not a code point below 256, so no \<open>string\<close> of this theory is
    that text.
\<close>

record env =
  now :: int
  strftime_ymd :: "int \<Rightarrow> string"
  float_of_str :: "string \<Rightarrow> pyfloat option"
  insert_book_fails :: bool
  insert_borrow_record_fails :: bool
  update_book_availability_fails :: bool
  update_borrow_record_return_date_fails :: bool
  set_return_date :: "string \<Rightarrow> int \<Rightarrow> int \<Rightarrow> borrow_record list \<Rightarrow> borrow_record list"
  le_sign_text :: string

text \<open>The entries of \<open>get_patron_borrowed_books\<close>, as the service reads them.\<close>

record borrowed_book =
  bb_book_id :: int
  bb_due_date :: int
  is_overdue :: bool

text \<open>
  The data-access layer (\<open>database.py\<close>) is imported by the service and is not among
  the sources; each of its primitives below is modelled from the store interface of the
  specification. A record counts as unreturned when its return date is null.
\<close>

definition unreturned_by :: "string \<Rightarrow> borrow_record \<Rightarrow> bool" where
  "unreturned_by pid r = (rec_patron_id r = pid \<and> return_date r = None)"

text \<open>Modelled from the spec: \<open>book_by_id(id)\<close> of the absent data-access layer.\<close>

definition get_book_by_id :: "store \<Rightarrow> int \<Rightarrow> book option" where
  "get_book_by_id s bid = find (\<lambda>b. book_id b = bid) (books s)"

text \<open>Modelled from the spec: \<open>book_by_isbn(isbn)\<close> of the absent data-access layer.\<close>

definition get_book_by_isbn :: "store \<Rightarrow> string \<Rightarrow> book option" where
  "get_book_by_isbn s i = find (\<lambda>b. isbn b = i) (books s)"

text \<open>
  Modelled from the spec: \<open>patron_borrow_count(patron_id)\<close> of the absent data-access
  layer, the count of the patron's unreturned records.
\<close>

definition get_patron_borrow_count :: "store \<Rightarrow> string \<Rightarrow> int" where
  "get_patron_borrow_count s pid = int (length (filter (unreturned_by pid) (borrow_records s)))"

text \<open>
  Modelled from the spec: \<open>patron_borrowed_books(patron_id)\<close> of the absent data-access
  layer, the patron's unreturned records in store order, each with its due date and
  flagged overdue when the due date is before the current time.
\<close>

definition borrowed_book_of :: "int \<Rightarrow> borrow_record \<Rightarrow> borrowed_book" where
  "borrowed_book_of t r =
     \<lparr>bb_book_id = rec_book_id r, bb_due_date = due_date r, is_overdue = (due_date r < t)\<rparr>"

definition get_patron_borrowed_books :: "env \<Rightarrow> store \<Rightarrow> string \<Rightarrow> borrowed_book list" where
  "get_patron_borrowed_books e s pid =
     map (borrowed_book_of (now e)) (filter (unreturned_by pid) (borrow_records s))"

text \<open>
  Modelled from the spec: \<open>insert_book\<close> of the absent data-access layer; it stores the
  book it is given under the next free id.
\<close>

definition next_book_id :: "store \<Rightarrow> int" where
  "next_book_id s = fold max (map book_id (books s)) 0 + 1"

definition insert_book ::
  "env \<Rightarrow> store \<Rightarrow> string \<Rightarrow> string \<Rightarrow> string \<Rightarrow> int \<Rightarrow> int \<Rightarrow> bool \<times> store" where
  "insert_book e s t a i copies avail =
     (if insert_book_fails e then (False, s)
      else (True, s\<lparr>books := books s @
              [\<lparr>book_id = next_book_id s, title = t, author = a, isbn = i,
                total_copies = copies, available_copies = avail\<rparr>]\<rparr>))"

text \<open>
  Modelled from the spec: \<open>insert_borrow_record\<close> of the absent data-access layer; the
  new record is unreturned.
\<close>

definition insert_borrow_record ::
  "env \<Rightarrow> store \<Rightarrow> string \<Rightarrow> int \<Rightarrow> int \<Rightarrow> int \<Rightarrow> bool \<times> store" where
  "insert_borrow_record e s pid bid bdate ddate =
     (if insert_borrow_record_fails e then (False, s)
      else (True, s\<lparr>borrow_records := borrow_records s @
              [\<lparr>rec_patron_id = pid, rec_book_id = bid, borrow_date = bdate,
                due_date = ddate, return_date = None\<rparr>]\<rparr>))"

text \<open>
  Modelled from the spec: \<open>update_book_availability(id, delta)\<close> of the absent
  data-access layer.
\<close>

definition change_availability :: "int \<Rightarrow> int \<Rightarrow> book \<Rightarrow> book" where
  "change_availability bid delta b =
     (if book_id b = bid then b\<lparr>available_copies := available_copies b + delta\<rparr> else b)"

definition update_book_availability :: "env \<Rightarrow> store \<Rightarrow> int \<Rightarrow> int \<Rightarrow> bool \<times> store" where
  "update_book_availability e s bid delta =
     (if update_book_availability_fails e then (False, s)
      else (True, s\<lparr>books := map (change_availability bid delta) (books s)\<rparr>))"

text \<open>
  Modelled from the spec: \<open>set_return_date(patron_id, book_id, date)\<close> of the absent
  data-access layer. The write on the records is the environment's \<open>set_return_date\<close>.
\<close>

definition update_borrow_record_return_date ::
  "env \<Rightarrow> store \<Rightarrow> string \<Rightarrow> int \<Rightarrow> int \<Rightarrow> bool \<times> store" where
  "update_borrow_record_return_date e s pid bid t =
     (if update_borrow_record_return_date_fails e then (False, s)
      else (True, s\<lparr>borrow_records := set_return_date e pid bid t (borrow_records s)\<rparr>))"

section \<open>The service layer\<close>

text \<open>The patron id check that opens every operation.\<close>

definition patron_id_invalid :: "string \<Rightarrow> bool" where
  "patron_id_invalid patron_id =
     (patron_id = [] \<or> \<not> isdigit patron_id \<or> length patron_id \<noteq> 6)"

definition add_book_to_catalog ::
  "env \<Rightarrow> store \<Rightarrow> string \<Rightarrow> string \<Rightarrow> string \<Rightarrow> int \<Rightarrow> (bool \<times> string) \<times> store" where
  \<open>add_book_to_catalog e s title' author' isbn' copies =
     (if title' = [] \<or> strip title' = [] then ((False, ''Title is required.''), s)
      else if 200 < length (strip title')
        then ((False, ''Title must be less than 200 characters.''), s)
      else if author' = [] \<or> strip author' = [] then ((False, ''Author is required.''), s)
      else if 100 < length (strip author')
        then ((False, ''Author must be less than 100 characters.''), s)
      else if length isbn' \<noteq> 13 \<or> \<not> isdigit isbn'
        then ((False, ''ISBN must be exactly 13 digits.''), s)
      else if copies \<le> 0 then ((False, ''Total copies must be a positive integer.''), s)
      else (case get_book_by_isbn s isbn' of
          Some existing \<Rightarrow> ((False, ''A book with this ISBN already exists.''), s)
        | None \<Rightarrow>
            (case insert_book e s (strip title') (strip author') isbn' copies copies of
              (True, s') \<Rightarrow>
                ((True, ''Book "'' @ strip title' @
                        ''" has been successfully added to the catalog.''), s')
            | (False, s') \<Rightarrow>
                ((False, ''Database error occurred while adding the book.''), s'))))\<close>

definition borrow_book_by_patron ::
  "env \<Rightarrow> store \<Rightarrow> string \<Rightarrow> int \<Rightarrow> (bool \<times> string) \<times> store" where
  \<open>borrow_book_by_patron e s patron_id bid =
     (if patron_id_invalid patron_id
        then ((False, ''Invalid patron ID. Must be exactly 6 digits.''), s)
      else (case get_book_by_id s bid of
          None \<Rightarrow> ((False, ''Book not found.''), s)
        | Some b \<Rightarrow>
            if available_copies b \<le> 0
              then ((False, ''This book is currently not available.''), s)
            else if 5 \<le> get_patron_borrow_count s patron_id
              then ((False, ''You have reached the maximum borrowing limit of 5 books.''), s)
            else
              (let bdate = now e; ddate = bdate + timedelta_days 14
               in case insert_borrow_record e s patron_id bid bdate ddate of
                    (False, s1) \<Rightarrow>
                      ((False, ''Database error occurred while creating borrow record.''), s1)
                  | (True, s1) \<Rightarrow>
                      (case update_book_availability e s1 bid (- 1) of
                        (False, s2) \<Rightarrow>
                          ((False,
                            ''Database error occurred while updating book availability.''), s2)
                      | (True, s2) \<Rightarrow>
                          ((True, ''Successfully borrowed "'' @ title b @ ''". Due date: '' @
                                  strftime_ymd e ddate @ ''.''), s2)))))\<close>

text \<open>The loop of the service that picks the first entry for the book.\<close>

definition find_borrow_record :: "borrowed_book list \<Rightarrow> int \<Rightarrow> borrowed_book option" where
  "find_borrow_record borrowed bid = find (\<lambda>r. bb_book_id r = bid) borrowed"

definition return_book_by_patron ::
  "env \<Rightarrow> store \<Rightarrow> string \<Rightarrow> int \<Rightarrow> (bool \<times> string) \<times> store" where
  \<open>return_book_by_patron e s patron_id bid =
     (if patron_id_invalid patron_id
        then ((False, ''Invalid patron ID. Must be exactly 6 digits.''), s)
      else (case get_book_by_id s bid of
          None \<Rightarrow> ((False, ''Book not found.''), s)
        | Some b \<Rightarrow>
            (case find_borrow_record (get_patron_borrowed_books e s patron_id) bid of
              None \<Rightarrow> ((False, ''No borrowing record found for this patron and book.''), s)
            | Some r \<Rightarrow>
                (let rdate = now e
                 in case update_borrow_record_return_date e s patron_id bid rdate of
                      (False, s1) \<Rightarrow>
                        ((False, ''Database error occurred while updating return date.''), s1)
                    | (True, s1) \<Rightarrow>
                        (case update_book_availability e s1 bid 1 of
                          (False, s2) \<Rightarrow>
                            ((False,
                              ''Database error occurred while updating book availability.''), s2)
                        | (True, s2) \<Rightarrow>
                            ((True, ''Successfully returned "'' @ title b @
                                    ''". Return date: '' @ strftime_ymd e rdate @ ''.''), s2))))))\<close>

record fee_result =
  fee_amount :: rat
  days_overdue :: int
  status :: string

text \<open>The fee arithmetic of \<open>calculate_late_fee_for_book\<close>, from the due date on.\<close>

definition late_fee_of_due_date :: "int \<Rightarrow> int \<Rightarrow> fee_result" where
  "late_fee_of_due_date t due =
     (let days = max 0 (days_of (t - due));
          fee = (if 0 < days
                 then min (if days \<le> 7 then of_int days * (1 / 2)
                           else 7 * (1 / 2) + of_int (days - 7) * 1) 15
                 else 0)
      in \<lparr>fee_amount = round2 fee, days_overdue = days,
          status = (if days = 0 then ''Success''
                    else ''Overdue by '' @ str_int days @ '' days'')\<rparr>)"

definition calculate_late_fee_for_book :: "env \<Rightarrow> store \<Rightarrow> string \<Rightarrow> int \<Rightarrow> fee_result" where
  "calculate_late_fee_for_book e s patron_id bid =
     (if patron_id_invalid patron_id
        then \<lparr>fee_amount = 0, days_overdue = 0,
              status = ''Invalid patron ID. Must be exactly 6 digits.''\<rparr>
      else (case get_book_by_id s bid of
          None \<Rightarrow> \<lparr>fee_amount = 0, days_overdue = 0, status = ''Book not found.''\<rparr>
        | Some b \<Rightarrow>
            (case find_borrow_record (get_patron_borrowed_books e s patron_id) bid of
              None \<Rightarrow>
                \<lparr>fee_amount = 0, days_overdue = 0,
                  status = ''No active borrowing record found.''\<rparr>
            | Some r \<Rightarrow> late_fee_of_due_date (now e) (bb_due_date r))))"

text \<open>The report's own copy of the fee arithmetic, for one entry flagged overdue.\<close>

definition report_late_fee :: "int \<Rightarrow> borrowed_book \<Rightarrow> rat" where
  "report_late_fee t r =
     (let days = days_of (t - bb_due_date r)
      in min (if days \<le> 7 then of_int days * (1 / 2)
              else 7 * (1 / 2) + of_int (days - 7) * 1) 15)"

definition add_late_fee :: "int \<Rightarrow> borrowed_book \<Rightarrow> rat \<Rightarrow> rat" where
  "add_late_fee t r acc = (if is_overdue r then acc + report_late_fee t r else acc)"

record history_entry =
  h_book_id :: int
  h_title :: string
  h_author :: string
  h_borrow_date :: int
  h_due_date :: int
  h_return_date :: "int option"

text \<open>
  The history query of the report: the patron's records joined with their books, newest
  borrow first (records with equal borrow dates stay in store order).
\<close>

definition history_of :: "store \<Rightarrow> borrow_record \<Rightarrow> history_entry list" where
  "history_of s r =
     map (\<lambda>b. \<lparr>h_book_id = rec_book_id r, h_title = title b, h_author = author b,
                h_borrow_date = borrow_date r, h_due_date = due_date r,
                h_return_date = return_date r\<rparr>)
         (filter (\<lambda>b. book_id b = rec_book_id r) (books s))"

definition borrowing_history_of :: "store \<Rightarrow> string \<Rightarrow> history_entry list" where
  "borrowing_history_of s pid =
     concat (map (history_of s)
       (sort_key (\<lambda>r. - borrow_date r)
          (filter (\<lambda>r. rec_patron_id r = pid) (borrow_records s))))"

record patron_report =
  report_error :: "string option"
  currently_borrowed_books :: "borrowed_book list"
  total_borrowed :: int
  total_late_fees :: rat
  borrowing_history :: "history_entry list"

definition get_patron_status_report :: "env \<Rightarrow> store \<Rightarrow> string \<Rightarrow> patron_report" where
  "get_patron_status_report e s patron_id =
     (if patron_id_invalid patron_id
        then \<lparr>report_error = Some ''Invalid patron ID. Must be exactly 6 digits.'',
              currently_borrowed_books = [], total_borrowed = 0, total_late_fees = 0,
              borrowing_history = []\<rparr>
      else
        (let borrowed = get_patron_borrowed_books e s patron_id;
             fees = fold (add_late_fee (now e)) borrowed 0
         in \<lparr>report_error = None, currently_borrowed_books = borrowed,
             total_borrowed = int (length borrowed), total_late_fees = round2 fees,
             borrowing_history = borrowing_history_of s patron_id\<rparr>))"

section \<open>The payment adapter\<close>

text \<open>
  A gateway is an object with the two methods of \<open>PaymentGateway\<close>; a call returns a
  value or raises, and a raised exception is kept as its text (\<open>Inl\<close>). The adapter's
  result carries the calls it made to the gateway, in order, and the store it leaves.
\<close>

record gateway =
  process_payment :: "string \<Rightarrow> rat \<Rightarrow> string + pyval"
  refund_payment :: "pyval \<Rightarrow> pyfloat \<Rightarrow> string + pyval"

datatype gateway_call = ProcessPayment string rat | RefundPayment pyval pyfloat

type_synonym adapter_result = "(py_error + bool \<times> pyval) \<times> gateway_call list \<times> store"

text \<open>The failure message of a response: its reason if it is a mapping, else the fallback.\<close>

definition failure_message :: "pyval \<Rightarrow> string \<Rightarrow> py_error + pyval" where
  "failure_message resp fallback = (if is_dict resp then py_get resp ''reason'' else Inr (PyStr fallback))"

definition check_payment_response :: "pyval \<Rightarrow> rat \<Rightarrow> int \<Rightarrow> py_error + bool \<times> pyval" where
  "check_payment_response resp fee days =
     (if \<not> truthy resp
        then (case failure_message resp ''Payment failed'' of
                Inl err \<Rightarrow> Inl err | Inr m \<Rightarrow> Inr (False, m))
      else (case py_get resp ''status'' of
          Inl err \<Rightarrow> Inl err
        | Inr st \<Rightarrow>
            if st \<noteq> PyStr ''success''
              then (case failure_message resp ''Payment failed'' of
                      Inl err \<Rightarrow> Inl err | Inr m \<Rightarrow> Inr (False, m))
            else (case py_item resp ''transaction_id'' of
                Inl err \<Rightarrow> Inl err
              | Inr tid \<Rightarrow>
                  Inr (True, PyDict [(''transaction_id'', tid),
                                     (''charged'', PyFloat (Finite (round2 fee))),
                                     (''days_overdue'', PyInt days)]))))"

definition pay_late_fees :: "env \<Rightarrow> store \<Rightarrow> string \<Rightarrow> int \<Rightarrow> gateway \<Rightarrow> adapter_result" where
  "pay_late_fees e s patron_id bid payment_gateway =
     (if patron_id_invalid patron_id then (Inr (False, PyStr ''Invalid patron ID''), [], s)
      else (case get_book_by_id s bid of
          None \<Rightarrow> (Inr (False, PyStr ''Book not found''), [], s)
        | Some b \<Rightarrow>
            (let r = calculate_late_fee_for_book e s patron_id bid;
                 fee = fee_amount r;
                 days = days_overdue r
             in if status r = ''Book not found.'' \<or> status r = ''No active borrowing record found.''
                  then (Inr (False, PyStr (status r)), [], s)
                else if fee \<le> 0 then (Inr (True, PyStr ''No late fees''), [], s)
                else (case process_payment payment_gateway patron_id fee of
                    Inl ex \<Rightarrow>
                      (Inr (False, PyStr (''Payment exception: '' @ ex)),
                       [ProcessPayment patron_id fee], s)
                  | Inr resp \<Rightarrow>
                      (check_payment_response resp fee days,
                       [ProcessPayment patron_id fee], s)))))"

text \<open>
  The refund range message: the source literal is \<open>Amount must be >0 and \<close>, three
  characters (see \<open>le_sign_text\<close>) and \<open>15\<close>.
\<close>

definition amount_range_message :: "env \<Rightarrow> string" where
  "amount_range_message e = ''Amount must be >0 and '' @ le_sign_text e @ ''15''"

definition check_refund_response :: "pyval \<Rightarrow> pyfloat \<Rightarrow> py_error + bool \<times> pyval" where
  "check_refund_response resp amt =
     (if \<not> truthy resp
        then (case failure_message resp ''Refund failed'' of
                Inl err \<Rightarrow> Inl err | Inr m \<Rightarrow> Inr (False, m))
      else (case py_get resp ''status'' of
          Inl err \<Rightarrow> Inl err
        | Inr st \<Rightarrow>
            if st \<noteq> PyStr ''refunded''
              then (case failure_message resp ''Refund failed'' of
                      Inl err \<Rightarrow> Inl err | Inr m \<Rightarrow> Inr (False, m))
            else (case py_item resp ''refund_id'' of
                Inl err \<Rightarrow> Inl err
              | Inr rid \<Rightarrow>
                  Inr (True, PyDict [(''refund_id'', rid),
                                     (''refunded'', PyFloat (round2_float amt))]))))"

definition refund_late_fee_payment ::
  "env \<Rightarrow> store \<Rightarrow> pyval \<Rightarrow> pyval \<Rightarrow> gateway \<Rightarrow> adapter_result" where
  "refund_late_fee_payment e s transaction_id amount payment_gateway =
     (if \<not> truthy transaction_id \<or> \<not> is_str transaction_id
        then (Inr (False, PyStr ''Invalid transaction''), [], s)
      else (case py_float (float_of_str e) amount of
          None \<Rightarrow> (Inr (False, PyStr ''Invalid amount''), [], s)
        | Some amt \<Rightarrow>
            if float_le amt (Finite 0) \<or> float_gt amt (Finite 15)
              then (Inr (False, PyStr (amount_range_message e)), [], s)
            else (case refund_payment payment_gateway transaction_id amt of
                Inl ex \<Rightarrow>
                  (Inr (False, PyStr (''Refund exception: '' @ ex)),
                   [RefundPayment transaction_id amt], s)
              | Inr resp \<Rightarrow>
                  (check_refund_response resp amt, [RefundPayment transaction_id amt], s))))"

section \<open>Example data\<close>

text \<open>
  A catalog of one book with three copies, one of them borrowed by patron 123456 and due
  at time 0, and a clock that reads ten days (and five microseconds) later.
\<close>

definition example_book :: book where
  "example_book =
     \<lparr>book_id = 1, title = ''T'', author = ''A'', isbn = ''1234567890123'',
      total_copies = 3, available_copies = 2\<rparr>"

definition example_record :: borrow_record where
  "example_record =
     \<lparr>rec_patron_id = ''123456'', rec_book_id = 1,
      borrow_date = - 1209600000000, due_date = 0, return_date = None\<rparr>"

definition example_store :: store where
  "example_store = \<lparr>books = [example_book], borrow_records = [example_record]\<rparr>"

text \<open>
  Two ways a store can carry out \<open>set_return_date\<close>: close every unreturned record of
  the pair (as one update over the matching rows does), or close the first one in store
  order. They agree when the pair has one unreturned record.
\<close>

definition close_every :: "string \<Rightarrow> int \<Rightarrow> int \<Rightarrow> borrow_record list \<Rightarrow> borrow_record list" where
  "close_every pid bid t rs =
     map (\<lambda>r. if unreturned_by pid r \<and> rec_book_id r = bid
               then r\<lparr>return_date := Some t\<rparr> else r) rs"

fun close_first :: "string \<Rightarrow> int \<Rightarrow> int \<Rightarrow> borrow_record list \<Rightarrow> borrow_record list" where
  "close_first pid bid t [] = []"
| "close_first pid bid t (r # rs) =
     (if unreturned_by pid r \<and> rec_book_id r = bid
      then r\<lparr>return_date := Some t\<rparr> # rs
      else r # close_first pid bid t rs)"

definition example_env :: env where
  "example_env =
     \<lparr>now = 864000000005, strftime_ymd = str_int, float_of_str = (\<lambda>s. None),
      insert_book_fails = False, insert_borrow_record_fails = False,
      update_book_availability_fails = False,
      update_borrow_record_return_date_fails = False,
      set_return_date = close_every, le_sign_text = ''<=''\<rparr>"

definition first_closing_env :: env where
  "first_closing_env = example_env\<lparr>set_return_date := close_first\<rparr>"

text \<open>A gateway that declines every charge and every refund, as the mocks of the tests do.\<close>

definition declining_gateway :: gateway where
  "declining_gateway =
     \<lparr>process_payment =
        (\<lambda>pid amount. Inr (PyDict [(''status'', PyStr ''error''), (''reason'', PyStr ''DECLINED'')])),
      refund_payment =
        (\<lambda>tid amount. Inr (PyDict [(''status'', PyStr ''error''), (''reason'', PyStr ''DECLINED'')]))\<rparr>"

text \<open>The same store read five microseconds after the due date: nothing is owed yet.\<close>

definition on_time_env :: env where
  "on_time_env = example_env\<lparr>now := 5\<rparr>"

text \<open>A patron at the borrowing limit: five unreturned records.\<close>

definition full_store :: store where
  "full_store =
     \<lparr>books = [example_book\<lparr>total_copies := 7\<rparr>],
      borrow_records = replicate 5 example_record\<rparr>"

text \<open>
  Three more gateways: one whose decline states no reason, one that answers with a bare
  string, and one that answers \<open>None\<close>.
\<close>

definition reasonless_gateway :: gateway where
  "reasonless_gateway =
     declining_gateway\<lparr>process_payment :=
        (\<lambda>pid amount. Inr (PyDict [(''status'', PyStr ''error'')]))\<rparr>"

definition text_gateway :: gateway where
  "text_gateway =
     declining_gateway\<lparr>process_payment := (\<lambda>pid amount. Inr (PyStr ''declined''))\<rparr>"

definition silent_gateway :: gateway where
  "silent_gateway = declining_gateway\<lparr>process_payment := (\<lambda>pid amount. Inr PyNone)\<rparr>"

text \<open>A title of 304 characters, 300 of them surrounding blanks.\<close>

definition padded_title :: string where
  "padded_title = replicate 150 CHR '' '' @ ''Dune'' @ replicate 150 CHR '' ''"

text \<open>
  The invariant of the data model: for every book of the catalog, its available copies
  are its total copies less the unreturned borrow records for it.
\<close>

definition open_for :: "int \<Rightarrow> borrow_record \<Rightarrow> bool" where
  "open_for bid r = (rec_book_id r = bid \<and> return_date r = None)"

definition unreturned_count :: "store \<Rightarrow> int \<Rightarrow> int" where
  "unreturned_count s bid = int (length (filter (open_for bid) (borrow_records s)))"

definition book_invariant :: "store \<Rightarrow> book \<Rightarrow> bool" where
  "book_invariant s b =
     (available_copies b = total_copies b - unreturned_count s (book_id b))"

definition copies_invariant :: "store \<Rightarrow> bool" where
  "copies_invariant s = list_all (book_invariant s) (books s)"

text \<open>The example store after patron 123456 borrows the book a second time.\<close>

definition twice_borrowed :: store where
  "twice_borrowed = snd (borrow_book_by_patron example_env example_store ''123456'' 1)"

text \<open>
  A store in which patron 123456 holds two books, one overdue by ten days and one by
  five, and another patron holds an overdue copy of the first.
\<close>

definition two_overdue_store :: store where
  "two_overdue_store =
     \<lparr>books = [example_book\<lparr>available_copies := 1\<rparr>,
               \<lparr>book_id = 2, title = ''U'', author = ''B'', isbn = ''1234567890124'',
                total_copies = 1, available_copies = 0\<rparr>],
      borrow_records =
        [example_record,
         \<lparr>rec_patron_id = ''123456'', rec_book_id = 2, borrow_date = - 1209600000000,
          due_date = 432000000000, return_date = None\<rparr>,
         \<lparr>rec_patron_id = ''654321'', rec_book_id = 1, borrow_date = - 1209600000000,
          due_date = 0, return_date = None\<rparr>]\<rparr>"

section \<open>The fee schedule\<close>

lemma round2_hundredths: "round2 (of_int k / 100) = of_int k / 100"
  by (simp add: round2_def Let_def)

lemma round2_fix: "x = of_int k / 100 \<Longrightarrow> round2 x = x"
  by (erule ssubst) (rule round2_hundredths)

lemma late_fee_of_due_date_schedule:
  "late_fee_of_due_date t due =
     (let d = max 0 (days_of (t - due))
      in \<lparr>fee_amount = (if d = 0 then 0
                        else if d \<le> 7 then of_int d * (1 / 2)
                        else min 15 (7 / 2 + of_int (d - 7) * 1)),
          days_overdue = d,
          status = (if d = 0 then ''Success'' else ''Overdue by '' @ str_int d @ '' days'')\<rparr>)"
proof -
  define d where "d = max 0 (days_of (t - due))"
  have d0: "0 \<le> d" by (simp add: d_def)
  have r0: "round2 0 = 0" by (rule round2_fix [of _ 0]) simp
  have r15: "round2 15 = 15" by (rule round2_fix [of _ 1500]) simp
  have rh: "round2 (of_int d * (1 / 2)) = of_int d * (1 / 2)"
    by (rule round2_fix [of _ "50 * d"]) simp
  have rl: "round2 (7 * (1 / 2) + of_int (d - 7) * 1) = 7 * (1 / 2) + of_int (d - 7) * 1"
    by (rule round2_fix [of _ "100 * d - 350"]) simp
  show ?thesis
    unfolding late_fee_of_due_date_def Let_def d_def [symmetric]
    using d0 r0 r15 rh rl by (auto simp: min_def)
qed

text \<open>The four amounts the specification lists: 0, 5, 10 and 100 days overdue.\<close>

lemma late_fee_examples:
  "fee_amount (late_fee_of_due_date 5 0) = 0"
  "fee_amount (late_fee_of_due_date (5 * 86400000000) 0) = 5 / 2"
  "fee_amount (late_fee_of_due_date (10 * 86400000000) 0) = 13 / 2"
  "fee_amount (late_fee_of_due_date (100 * 86400000000) 0) = 15"
  by (simp_all add: late_fee_of_due_date_schedule days_of_def microseconds_per_day_def)

lemma example_patron_valid: "\<not> patron_id_invalid ''123456''"
  by (simp add: patron_id_invalid_def isdigit_def isdigit_char_def)

lemma example_book_found: "get_book_by_id example_store 1 = Some example_book"
  by (simp add: get_book_by_id_def example_store_def example_book_def)

lemma example_record_found:
  "find_borrow_record (get_patron_borrowed_books example_env example_store ''123456'') 1
     = Some \<lparr>bb_book_id = 1, bb_due_date = 0, is_overdue = True\<rparr>"
  by (simp add: find_borrow_record_def get_patron_borrowed_books_def example_store_def
      example_record_def example_env_def unreturned_by_def borrowed_book_of_def)

text \<open>
  C1. With a valid patron id, an existing book and a matching unreturned record whose due
  date is on or before the current time, \<open>calculate_late_fee_for_book\<close> returns the days
  overdue \<open>d\<close> (the whole days from the due date to now) with the fee 0 when \<open>d = 0\<close>,
  \<open>d\<close> times 0.50 when \<open>1 \<le> d \<le> 7\<close>, and 3.50 plus 1.00 for each day beyond the seventh,
  capped at 15.00, when \<open>d > 7\<close>; the status is "Success" when \<open>d = 0\<close> and
  "Overdue by d days" otherwise.
\<close>

theorem calculate_late_fee_schedule:
  assumes "\<not> patron_id_invalid pid"
    and "get_book_by_id s bid = Some b"
    and "find_borrow_record (get_patron_borrowed_books e s pid) bid = Some r"
    and "bb_due_date r \<le> now e"
  shows "calculate_late_fee_for_book e s pid bid =
     (let d = days_of (now e - bb_due_date r)
      in \<lparr>fee_amount = (if d = 0 then 0
                        else if d \<le> 7 then of_int d * (1 / 2)
                        else min 15 (7 / 2 + of_int (d - 7) * 1)),
          days_overdue = d,
          status = (if d = 0 then ''Success'' else ''Overdue by '' @ str_int d @ '' days'')\<rparr>)"
proof -
  have "0 \<le> days_of (now e - bb_due_date r)"
    using assms(4) by (simp add: days_of_def microseconds_per_day_def pos_imp_zdiv_nonneg_iff)
  then have m: "max 0 (days_of (now e - bb_due_date r)) = days_of (now e - bb_due_date r)"
    by simp
  have "calculate_late_fee_for_book e s pid bid = late_fee_of_due_date (now e) (bb_due_date r)"
    using assms(1-3) by (simp add: calculate_late_fee_for_book_def)
  then show ?thesis
    by (simp only: late_fee_of_due_date_schedule m)
qed

theorem calculate_late_fee_schedule_witness:
  "\<not> patron_id_invalid ''123456'' \<and>
   get_book_by_id example_store 1 = Some example_book \<and>
   find_borrow_record (get_patron_borrowed_books example_env example_store ''123456'') 1
     = Some \<lparr>bb_book_id = 1, bb_due_date = 0, is_overdue = True\<rparr> \<and>
   bb_due_date \<lparr>bb_book_id = 1, bb_due_date = 0, is_overdue = True\<rparr> \<le> now example_env \<and>
   calculate_late_fee_for_book example_env example_store ''123456'' 1 =
     \<lparr>fee_amount = 13 / 2, days_overdue = 10, status = ''Overdue by 10 days''\<rparr>"
proof -
  have h4: "bb_due_date \<lparr>bb_book_id = 1, bb_due_date = 0, is_overdue = True\<rparr> \<le> now example_env"
    by (simp add: example_env_def)
  have d: "days_of (now example_env) = 10"
    by (simp add: days_of_def example_env_def microseconds_per_day_def)
  have s: "str_int 10 = ''10''"
    by code_simp
  show ?thesis
    using calculate_late_fee_schedule
      [OF example_patron_valid example_book_found example_record_found h4]
      example_patron_valid example_book_found example_record_found h4
    by (simp add: d s Let_def)
qed

section \<open>The two copies of the fee arithmetic\<close>

lemma overdue_entry_days:
  assumes "r \<in> set (get_patron_borrowed_books e s pid)" and "is_overdue r"
  shows "0 \<le> days_of (now e - bb_due_date r)"
proof -
  from assms have "bb_due_date r < now e"
    by (auto simp: get_patron_borrowed_books_def borrowed_book_of_def)
  then show ?thesis
    by (simp add: days_of_def microseconds_per_day_def pos_imp_zdiv_nonneg_iff)
qed

lemma report_late_fee_schedule:
  assumes "0 \<le> days_of (t - bb_due_date r)"
  shows "report_late_fee t r = fee_amount (late_fee_of_due_date t (bb_due_date r))"
  using assms
  by (simp add: report_late_fee_def late_fee_of_due_date_schedule Let_def min.commute)

section \<open>The report total\<close>

lemma fold_add_late_fee:
  "fold (add_late_fee t) rs acc
     = acc + sum_list (map (report_late_fee t) (filter is_overdue rs))"
  by (induction rs arbitrary: acc) (simp_all add: add_late_fee_def)

lemma total_late_fees_sum:
  assumes "\<not> patron_id_invalid pid"
  shows "total_late_fees (get_patron_status_report e s pid) =
     round2 (sum_list (map (\<lambda>r. fee_amount (late_fee_of_due_date (now e) (bb_due_date r)))
        (filter is_overdue (get_patron_borrowed_books e s pid))))"
proof -
  have "map (report_late_fee (now e)) (filter is_overdue (get_patron_borrowed_books e s pid))
      = map (\<lambda>r. fee_amount (late_fee_of_due_date (now e) (bb_due_date r)))
          (filter is_overdue (get_patron_borrowed_books e s pid))"
    by (rule map_cong [OF refl]) (auto intro: report_late_fee_schedule overdue_entry_days)
  moreover have "total_late_fees (get_patron_status_report e s pid) =
      round2 (sum_list (map (report_late_fee (now e))
        (filter is_overdue (get_patron_borrowed_books e s pid))))"
    using assms by (simp add: get_patron_status_report_def Let_def fold_add_late_fee)
  ultimately show ?thesis by (simp only:)
qed

lemma late_fee_status_not_error:
  "status (late_fee_of_due_date t due) \<noteq> ''Book not found.'' \<and>
   status (late_fee_of_due_date t due) \<noteq> ''No active borrowing record found.''"
  by (simp add: late_fee_of_due_date_def Let_def)

text \<open>
  C6. With a valid patron id, an existing book and an active borrow record, whenever the
  fee computed by \<open>calculate_late_fee_for_book\<close> is at most 0, \<open>pay_late_fees\<close> returns
  success with the message "No late fees", makes no call to the gateway and leaves the
  store as it was.
\<close>

theorem pay_late_fees_no_fee:
  assumes "\<not> patron_id_invalid pid"
    and "get_book_by_id s bid = Some b"
    and "find_borrow_record (get_patron_borrowed_books e s pid) bid = Some r"
    and "fee_amount (calculate_late_fee_for_book e s pid bid) \<le> 0"
  shows "pay_late_fees e s pid bid g = (Inr (True, PyStr ''No late fees''), [], s)"
proof -
  have c: "calculate_late_fee_for_book e s pid bid = late_fee_of_due_date (now e) (bb_due_date r)"
    using assms(1-3) by (simp add: calculate_late_fee_for_book_def)
  show ?thesis
    using assms(1,2,4) late_fee_status_not_error [of "now e" "bb_due_date r"]
    by (simp add: pay_late_fees_def Let_def c)
qed

text \<open>
  C4. A patron with a valid id and five or more unreturned records is refused every
  borrow, whatever the book: the call reports failure and the store (borrow records and
  available copies) is unchanged.
\<close>

theorem borrow_limit_refused:
  assumes "\<not> patron_id_invalid pid" and "5 \<le> get_patron_borrow_count s pid"
  shows "fst (fst (borrow_book_by_patron e s pid bid)) = False \<and>
         snd (borrow_book_by_patron e s pid bid) = s"
  using assms by (simp add: borrow_book_by_patron_def split: option.splits)

lemma on_time_record_found:
  "find_borrow_record (get_patron_borrowed_books on_time_env example_store ''123456'') 1
     = Some \<lparr>bb_book_id = 1, bb_due_date = 0, is_overdue = True\<rparr>"
  by (simp add: find_borrow_record_def get_patron_borrowed_books_def example_store_def
      example_record_def example_env_def on_time_env_def unreturned_by_def borrowed_book_of_def)

lemma on_time_fee:
  "fee_amount (calculate_late_fee_for_book on_time_env example_store ''123456'' 1) = 0"
  using example_patron_valid example_book_found on_time_record_found late_fee_examples(1)
  by (simp add: calculate_late_fee_for_book_def on_time_env_def example_env_def)

theorem pay_late_fees_no_fee_witness:
  "\<not> patron_id_invalid ''123456'' \<and>
   get_book_by_id example_store 1 = Some example_book \<and>
   find_borrow_record (get_patron_borrowed_books on_time_env example_store ''123456'') 1
     = Some \<lparr>bb_book_id = 1, bb_due_date = 0, is_overdue = True\<rparr> \<and>
   fee_amount (calculate_late_fee_for_book on_time_env example_store ''123456'' 1) \<le> 0 \<and>
   pay_late_fees on_time_env example_store ''123456'' 1 declining_gateway
     = (Inr (True, PyStr ''No late fees''), [], example_store)"
proof -
  have f: "fee_amount (calculate_late_fee_for_book on_time_env example_store ''123456'' 1) \<le> 0"
    by (simp add: on_time_fee)
  show ?thesis
    using pay_late_fees_no_fee [OF example_patron_valid example_book_found on_time_record_found f]
      example_patron_valid example_book_found on_time_record_found f
    by simp
qed

lemma full_store_count: "get_patron_borrow_count full_store ''123456'' = 5"
  by (simp add: get_patron_borrow_count_def full_store_def example_record_def unreturned_by_def
      numeral_eq_Suc)

theorem borrow_limit_refused_witness:
  "\<not> patron_id_invalid ''123456'' \<and>
   5 \<le> get_patron_borrow_count full_store ''123456'' \<and>
   fst (fst (borrow_book_by_patron example_env full_store ''123456'' 1)) = False \<and>
   snd (borrow_book_by_patron example_env full_store ''123456'' 1) = full_store"
proof -
  have c: "5 \<le> get_patron_borrow_count full_store ''123456''"
    by (simp add: full_store_count)
  show ?thesis
    using borrow_limit_refused [OF example_patron_valid c] example_patron_valid c
    by simp
qed

section \<open>The payment adapter's results\<close>

text \<open>
  C9. Whatever the input and whatever the gateway does, \<open>pay_late_fees\<close> and
  \<open>refund_late_fee_payment\<close> leave the store as they found it: the catalog, every
  book's available and total copies and all borrow records are the same after the call,
  whether it succeeds, fails or raises.
\<close>

theorem adapters_leave_store:
  "snd (snd (pay_late_fees e s pid bid g)) = s \<and>
   snd (snd (refund_late_fee_payment e s tid amount g)) = s"
  by (simp add: pay_late_fees_def refund_late_fee_payment_def Let_def
      split: option.splits sum.splits)

lemma example_fee:
  "calculate_late_fee_for_book example_env example_store ''123456'' 1
     = \<lparr>fee_amount = 13 / 2, days_overdue = 10, status = ''Overdue by 10 days''\<rparr>"
proof -
  have d: "days_of (now example_env) = 10"
    by (simp add: days_of_def example_env_def microseconds_per_day_def)
  have s: "str_int 10 = ''10''"
    by code_simp
  show ?thesis
    using example_patron_valid example_book_found example_record_found
    by (simp add: calculate_late_fee_for_book_def late_fee_of_due_date_schedule d s Let_def)
qed

lemma example_pay:
  "pay_late_fees example_env example_store ''123456'' 1 g =
    (case process_payment g ''123456'' (13 / 2) of
       Inl ex \<Rightarrow> (Inr (False, PyStr (''Payment exception: '' @ ex)),
                   [ProcessPayment ''123456'' (13 / 2)], example_store)
     | Inr resp \<Rightarrow> (check_payment_response resp (13 / 2) 10,
                     [ProcessPayment ''123456'' (13 / 2)], example_store))"
  using example_patron_valid example_book_found
  by (simp add: pay_late_fees_def example_fee Let_def split: sum.splits)

theorem adapters_leave_store_witness:
  "snd (snd (pay_late_fees example_env example_store ''123456'' 1 declining_gateway))
     = example_store \<and>
   snd (snd (refund_late_fee_payment example_env example_store (PyStr ''tx'')
       (PyFloat (Finite 3)) declining_gateway)) = example_store \<and>
   fst (snd (pay_late_fees example_env example_store ''123456'' 1 declining_gateway))
     = [ProcessPayment ''123456'' (13 / 2)]"
  using adapters_leave_store [of example_env example_store "''123456''" 1 declining_gateway
      "PyStr ''tx''" "PyFloat (Finite 3)"]
  by (simp add: example_pay declining_gateway_def)

text \<open>
  C5 as stated fails: a declining mapping that states no reason yields the message
  \<open>None\<close>, not a generic failure message, and a response that is a non-empty string
  makes \<open>pay_late_fees\<close> raise \<open>AttributeError\<close> instead of returning a failure.
\<close>

theorem payment_response_counterexample:
  "pay_late_fees example_env example_store ''123456'' 1 reasonless_gateway
     = (Inr (False, PyNone), [ProcessPayment ''123456'' (13 / 2)], example_store) \<and>
   fst (pay_late_fees example_env example_store ''123456'' 1 text_gateway)
     = Inl AttributeError"
  by (simp add: example_pay reasonless_gateway_def text_gateway_def declining_gateway_def
      check_payment_response_def failure_message_def)

lemma positive_fee_status:
  assumes "0 < fee_amount (calculate_late_fee_for_book e s pid bid)"
  shows "status (calculate_late_fee_for_book e s pid bid) \<noteq> ''Book not found.'' \<and>
         status (calculate_late_fee_for_book e s pid bid) \<noteq> ''No active borrowing record found.''"
  using assms late_fee_status_not_error
  by (auto simp: calculate_late_fee_for_book_def split: if_splits option.splits)

text \<open>
  C5, amended. For every response that \<open>process_payment\<close> returns without raising: if it
  is a mapping whose status is not "success", \<open>pay_late_fees\<close> returns failure with the
  mapping's \<open>reason\<close> entry, verbatim, as the message (\<open>None\<close> when the mapping has no
  such entry); if it is \<open>None\<close> or another false value that is not a mapping,
  \<open>pay_late_fees\<close> returns failure with the message "Payment failed".
\<close>

theorem payment_failure_message:
  assumes "\<not> patron_id_invalid pid"
    and "get_book_by_id s bid = Some b"
    and "0 < fee_amount (calculate_late_fee_for_book e s pid bid)"
    and "process_payment g pid (fee_amount (calculate_late_fee_for_book e s pid bid)) = Inr resp"
  shows "(\<forall>kvs. resp = PyDict kvs \<and> map_of kvs ''status'' \<noteq> Some (PyStr ''success'') \<longrightarrow>
            fst (pay_late_fees e s pid bid g)
              = Inr (False, case map_of kvs ''reason'' of Some v \<Rightarrow> v | None \<Rightarrow> PyNone)) \<and>
         (\<not> truthy resp \<and> \<not> is_dict resp \<longrightarrow>
            fst (pay_late_fees e s pid bid g) = Inr (False, PyStr ''Payment failed''))"
proof -
  have p: "pay_late_fees e s pid bid g =
      (check_payment_response resp (fee_amount (calculate_late_fee_for_book e s pid bid))
         (days_overdue (calculate_late_fee_for_book e s pid bid)),
       [ProcessPayment pid (fee_amount (calculate_late_fee_for_book e s pid bid))], s)"
    using assms positive_fee_status [OF assms(3)]
    by (simp add: pay_late_fees_def Let_def)
  show ?thesis
    unfolding p
    by (auto simp: check_payment_response_def failure_message_def split: option.splits)
qed

theorem payment_failure_message_witness:
  "\<not> patron_id_invalid ''123456'' \<and>
   get_book_by_id example_store 1 = Some example_book \<and>
   0 < fee_amount (calculate_late_fee_for_book example_env example_store ''123456'' 1) \<and>
   fst (pay_late_fees example_env example_store ''123456'' 1 declining_gateway)
     = Inr (False, PyStr ''DECLINED'') \<and>
   fst (pay_late_fees example_env example_store ''123456'' 1 silent_gateway)
     = Inr (False, PyStr ''Payment failed'')"
proof -
  have f: "0 < fee_amount (calculate_late_fee_for_book example_env example_store ''123456'' 1)"
    by (simp add: example_fee)
  have r1: "process_payment declining_gateway ''123456''
      (fee_amount (calculate_late_fee_for_book example_env example_store ''123456'' 1))
      = Inr (PyDict [(''status'', PyStr ''error''), (''reason'', PyStr ''DECLINED'')])"
    by (simp add: declining_gateway_def)
  have r2: "process_payment silent_gateway ''123456''
      (fee_amount (calculate_late_fee_for_book example_env example_store ''123456'' 1))
      = Inr PyNone"
    by (simp add: silent_gateway_def)
  have a: "fst (pay_late_fees example_env example_store ''123456'' 1 declining_gateway)
     = Inr (False, PyStr ''DECLINED'')"
    using payment_failure_message [OF example_patron_valid example_book_found f r1] by simp
  have b: "fst (pay_late_fees example_env example_store ''123456'' 1 silent_gateway)
     = Inr (False, PyStr ''Payment failed'')"
    using payment_failure_message [OF example_patron_valid example_book_found f r2] by simp
  from a b f example_patron_valid example_book_found show ?thesis by blast
qed

section \<open>Adding a book\<close>

lemma strip_Nil: "strip [] = []"
  by (simp add: strip_def)

lemma isspace_space: "isspace_char CHR '' ''"
  by (simp add: isspace_char_def)

lemma dropWhile_keeps: "w \<noteq> [] \<Longrightarrow> \<not> P (hd w) \<Longrightarrow> dropWhile P w = w"
  by (cases w) simp_all

lemma strip_padded:
  assumes "w \<noteq> []" and "\<not> isspace_char (hd w)" and "\<not> isspace_char (last w)"
  shows "strip (replicate m CHR '' '' @ w @ replicate n CHR '' '') = w"
proof -
  have a: "dropWhile isspace_char (replicate m CHR '' '' @ w @ replicate n CHR '' '')
      = w @ replicate n CHR '' ''"
  proof -
    have "dropWhile isspace_char (replicate m CHR '' '' @ (w @ replicate n CHR '' ''))
        = dropWhile isspace_char (w @ replicate n CHR '' '')"
      by (rule dropWhile_append2) (simp add: isspace_space)
    also have "\<dots> = w @ replicate n CHR '' ''"
      using assms(1,2) by (intro dropWhile_keeps) simp_all
    finally show ?thesis .
  qed
  have b: "dropWhile isspace_char (rev (w @ replicate n CHR '' '')) = rev w"
  proof -
    have "dropWhile isspace_char (replicate n CHR '' '' @ rev w) = dropWhile isspace_char (rev w)"
      by (rule dropWhile_append2) (simp add: isspace_space)
    also have "\<dots> = rev w"
      using assms(1,3) by (intro dropWhile_keeps) (simp_all add: hd_rev)
    finally show ?thesis by simp
  qed
  show ?thesis
    by (simp only: strip_def a b rev_rev_ident)
qed

text \<open>
  C10. \<open>add_book_to_catalog\<close> validates and stores the title and the author with their
  leading and trailing whitespace removed: a title or author that is empty after
  stripping is rejected as required, the limits of 200 and 100 characters are tested on
  the stripped strings (so a longer string is accepted when only its surrounding
  whitespace takes it over the limit), and the book stored on success carries the
  stripped title and author.
\<close>

theorem add_book_strips:
  "(strip t = [] \<longrightarrow>
      add_book_to_catalog e s t a i n = ((False, ''Title is required.''), s)) \<and>
   (200 < length (strip t) \<longrightarrow>
      add_book_to_catalog e s t a i n
        = ((False, ''Title must be less than 200 characters.''), s)) \<and>
   (strip t \<noteq> [] \<and> length (strip t) \<le> 200 \<and> strip a = [] \<longrightarrow>
      add_book_to_catalog e s t a i n = ((False, ''Author is required.''), s)) \<and>
   (strip t \<noteq> [] \<and> length (strip t) \<le> 200 \<and> 100 < length (strip a) \<longrightarrow>
      add_book_to_catalog e s t a i n
        = ((False, ''Author must be less than 100 characters.''), s)) \<and>
   (strip t \<noteq> [] \<and> length (strip t) \<le> 200 \<and> strip a \<noteq> [] \<and> length (strip a) \<le> 100 \<and>
    length i = 13 \<and> isdigit i \<and> 0 < n \<and> get_book_by_isbn s i = None \<and>
    \<not> insert_book_fails e \<longrightarrow>
      add_book_to_catalog e s t a i n
        = ((True, ''Book '' @ [CHR 0x22] @ strip t @ [CHR 0x22] @
                  '' has been successfully added to the catalog.''),
           s\<lparr>books := books s @
              [\<lparr>book_id = next_book_id s, title = strip t, author = strip a, isbn = i,
                total_copies = n, available_copies = n\<rparr>]\<rparr>))"
proof -
  have t0: "t = [] \<Longrightarrow> strip t = []" by (simp add: strip_Nil)
  have a0: "a = [] \<Longrightarrow> strip a = []" by (simp add: strip_Nil)
  show ?thesis
    using t0 a0 by (auto simp: add_book_to_catalog_def insert_book_def)
qed

lemma strip_padded_title: "strip padded_title = ''Dune''"
  unfolding padded_title_def by (rule strip_padded) (simp_all add: isspace_char_def)

lemma strip_author: "strip '' Frank Herbert '' = ''Frank Herbert''"
  using strip_padded [of "''Frank Herbert''" 1 1] by (simp add: isspace_char_def)

lemma strip_blank: "strip ''   '' = []"
  by (simp add: strip_def isspace_char_def)

theorem add_book_strips_witness:
  "200 < length padded_title \<and>
   add_book_to_catalog example_env example_store ''   '' ''A'' ''9780441013593'' 2
     = ((False, ''Title is required.''), example_store) \<and>
   add_book_to_catalog example_env example_store ''Dune'' ''   '' ''9780441013593'' 2
     = ((False, ''Author is required.''), example_store) \<and>
   snd (add_book_to_catalog example_env example_store padded_title '' Frank Herbert ''
          ''9780441013593'' 2)
     = \<lparr>books = [example_book,
          \<lparr>book_id = 2, title = ''Dune'', author = ''Frank Herbert'', isbn = ''9780441013593'',
           total_copies = 2, available_copies = 2\<rparr>],
        borrow_records = [example_record]\<rparr> \<and>
   fst (fst (add_book_to_catalog example_env example_store padded_title '' Frank Herbert ''
          ''9780441013593'' 2)) = True"
proof -
  have l: "200 < length padded_title" by (simp add: padded_title_def)
  have d: "strip ''Dune'' = ''Dune''"
    using strip_padded [of "''Dune''" 0 0] by (simp add: isspace_char_def)
  have a: "add_book_to_catalog example_env example_store ''   '' ''A'' ''9780441013593'' 2
     = ((False, ''Title is required.''), example_store)"
    using add_book_strips [where t = "''   ''" and e = example_env and s = example_store
        and a = "''A''" and i = "''9780441013593''" and n = 2]
    by (simp add: strip_blank)
  have b: "add_book_to_catalog example_env example_store ''Dune'' ''   '' ''9780441013593'' 2
     = ((False, ''Author is required.''), example_store)"
    using add_book_strips [where t = "''Dune''" and e = example_env and s = example_store
        and a = "''   ''" and i = "''9780441013593''" and n = 2]
    by (simp add: strip_blank d)
  have i: "isdigit ''9780441013593''" by (simp add: isdigit_def isdigit_char_def)
  have n: "get_book_by_isbn example_store ''9780441013593'' = None"
    by (simp add: get_book_by_isbn_def example_store_def example_book_def)
  have f: "\<not> insert_book_fails example_env" by (simp add: example_env_def)
  have k: "next_book_id example_store = 2"
    by (simp add: next_book_id_def example_store_def example_book_def)
  have c: "add_book_to_catalog example_env example_store padded_title '' Frank Herbert ''
          ''9780441013593'' 2
     = ((True, ''Book '' @ [CHR 0x22] @ ''Dune'' @ [CHR 0x22] @
                  '' has been successfully added to the catalog.''),
        example_store\<lparr>books := books example_store @
              [\<lparr>book_id = 2, title = ''Dune'', author = ''Frank Herbert'',
                isbn = ''9780441013593'', total_copies = 2, available_copies = 2\<rparr>]\<rparr>)"
    using add_book_strips [where t = padded_title and e = example_env and s = example_store
        and a = "'' Frank Herbert ''" and i = "''9780441013593''" and n = 2] i n f
    by (simp add: strip_padded_title strip_author k)
  have c2: "snd (add_book_to_catalog example_env example_store padded_title '' Frank Herbert ''
          ''9780441013593'' 2)
     = \<lparr>books = [example_book,
          \<lparr>book_id = 2, title = ''Dune'', author = ''Frank Herbert'', isbn = ''9780441013593'',
           total_copies = 2, available_copies = 2\<rparr>],
        borrow_records = [example_record]\<rparr>"
    unfolding c by (simp add: example_store_def)
  have c3: "fst (fst (add_book_to_catalog example_env example_store padded_title
          '' Frank Herbert '' ''9780441013593'' 2)) = True"
    by (simp add: c)
  from l a b c2 c3 show ?thesis by blast
qed

section \<open>The report's fees and the calculator's fees\<close>

lemma overdue_filter:
  "filter is_overdue (get_patron_borrowed_books e s pid) =
     map (borrowed_book_of (now e))
       (filter (\<lambda>r. unreturned_by pid r \<and> due_date r < now e) (borrow_records s))"
  by (simp add: get_patron_borrowed_books_def filter_map o_def borrowed_book_of_def conj_commute)

lemma single_record_fee:
  assumes "\<not> patron_id_invalid pid" and "unreturned_by pid r"
    and "get_book_by_id s (rec_book_id r) \<noteq> None"
  shows "calculate_late_fee_for_book e (s\<lparr>borrow_records := [r]\<rparr>) pid (rec_book_id r)
     = late_fee_of_due_date (now e) (due_date r)"
  using assms
  by (auto simp: calculate_late_fee_for_book_def get_book_by_id_def find_borrow_record_def
      get_patron_borrowed_books_def borrowed_book_of_def)

lemma late_fee_half: "\<exists>k. fee_amount (late_fee_of_due_date t due) = of_int k / 2"
proof -
  define d where "d = max 0 (days_of (t - due))"
  have f: "fee_amount (late_fee_of_due_date t due) =
      (if d = 0 then 0 else if d \<le> 7 then of_int d * (1 / 2)
       else min 15 (7 / 2 + of_int (d - 7) * 1))"
    by (simp add: late_fee_of_due_date_schedule Let_def d_def)
  have a: "(0::rat) = of_int 0 / 2" by simp
  have b: "of_int d * (1 / 2) = (of_int d :: rat) / 2" by simp
  have c: "(15::rat) = of_int 30 / 2" by simp
  have e: "7 / 2 + of_int (d - 7) * 1 = (of_int (2 * d - 7) :: rat) / 2" by simp
  show ?thesis
    unfolding f min_def
    using a b c e by (metis (full_types))
qed

lemma sum_halves:
  assumes "\<And>x. \<exists>k. f x = (of_int k :: rat) / 2"
  shows "\<exists>k. sum_list (map f xs) = of_int k / 2"
proof (induction xs)
  case Nil
  have "(0::rat) = of_int 0 / 2" by simp
  then show ?case by (simp only: list.map sum_list.Nil) blast
next
  case (Cons x xs)
  from Cons.IH obtain k where k: "sum_list (map f xs) = of_int k / 2" by blast
  from assms obtain j where j: "f x = of_int j / 2" by blast
  have "sum_list (map f (x # xs)) = of_int (j + k) / 2"
    by (simp add: k j add_divide_distrib)
  then show ?case by blast
qed

lemma round2_half: "round2 (of_int k / 2) = of_int k / 2"
  by (rule round2_fix [of _ "50 * k"]) simp

text \<open>
  C8. The late fee that \<open>get_patron_status_report\<close> sums for an unreturned overdue
  record is the \<open>fee_amount\<close> that \<open>calculate_late_fee_for_book\<close> computes for that same
  record at the same current time: the report's total is the sum, over the patron's
  unreturned records with a due date before now, of the fee \<open>calculate_late_fee_for_book\<close>
  returns for the record (read from a store that holds just that record, so that it is
  the one picked); and for a store holding one such record the report's total is that
  fee. Every record's book is taken to be in the catalog.
\<close>

theorem report_total_agrees:
  assumes "\<not> patron_id_invalid pid"
    and "\<forall>r\<in>set (borrow_records s).
           unreturned_by pid r \<longrightarrow> get_book_by_id s (rec_book_id r) \<noteq> None"
  shows "total_late_fees (get_patron_status_report e s pid) =
     sum_list (map (\<lambda>r. fee_amount (calculate_late_fee_for_book e (s\<lparr>borrow_records := [r]\<rparr>)
                                       pid (rec_book_id r)))
       (filter (\<lambda>r. unreturned_by pid r \<and> due_date r < now e) (borrow_records s))) \<and>
    (\<forall>r\<in>set (borrow_records s). unreturned_by pid r \<and> due_date r < now e \<longrightarrow>
       total_late_fees (get_patron_status_report e (s\<lparr>borrow_records := [r]\<rparr>) pid) =
       fee_amount (calculate_late_fee_for_book e (s\<lparr>borrow_records := [r]\<rparr>) pid
                     (rec_book_id r)))"
proof -
  let ?fee = "\<lambda>r. fee_amount (late_fee_of_due_date (now e) (due_date r))"
  have total: "total_late_fees (get_patron_status_report e s' pid) =
      sum_list (map ?fee
        (filter (\<lambda>r. unreturned_by pid r \<and> due_date r < now e) (borrow_records s')))" for s'
  proof -
    let ?due = "filter (\<lambda>r. unreturned_by pid r \<and> due_date r < now e) (borrow_records s')"
    have t: "total_late_fees (get_patron_status_report e s' pid) =
        round2 (sum_list (map (\<lambda>b. fee_amount (late_fee_of_due_date (now e) (bb_due_date b)))
          (filter is_overdue (get_patron_borrowed_books e s' pid))))"
      by (rule total_late_fees_sum [OF assms(1)])
    have m: "map (\<lambda>b. fee_amount (late_fee_of_due_date (now e) (bb_due_date b)))
        (filter is_overdue (get_patron_borrowed_books e s' pid)) = map ?fee ?due"
      by (simp add: overdue_filter o_def borrowed_book_of_def)
    obtain k where k: "sum_list (map ?fee ?due) = of_int k / 2"
      using sum_halves [of ?fee ?due] late_fee_half by blast
    have "round2 (sum_list (map ?fee ?due)) = sum_list (map ?fee ?due)"
      unfolding k by (rule round2_half)
    then show ?thesis
      by (simp only: t m)
  qed
  have c: "map (\<lambda>r. fee_amount (calculate_late_fee_for_book e (s\<lparr>borrow_records := [r]\<rparr>)
                                       pid (rec_book_id r)))
        (filter (\<lambda>r. unreturned_by pid r \<and> due_date r < now e) (borrow_records s))
      = map ?fee (filter (\<lambda>r. unreturned_by pid r \<and> due_date r < now e) (borrow_records s))"
    by (rule map_cong [OF refl]) (use assms in \<open>auto simp: single_record_fee\<close>)
  have a: "total_late_fees (get_patron_status_report e s pid) =
     sum_list (map (\<lambda>r. fee_amount (calculate_late_fee_for_book e (s\<lparr>borrow_records := [r]\<rparr>)
                                       pid (rec_book_id r)))
       (filter (\<lambda>r. unreturned_by pid r \<and> due_date r < now e) (borrow_records s)))"
    by (simp only: total c)
  have b: "total_late_fees (get_patron_status_report e (s\<lparr>borrow_records := [r]\<rparr>) pid) =
       fee_amount (calculate_late_fee_for_book e (s\<lparr>borrow_records := [r]\<rparr>) pid
                     (rec_book_id r))"
    if r: "r \<in> set (borrow_records s)" "unreturned_by pid r" "due_date r < now e" for r
  proof -
    have "get_book_by_id s (rec_book_id r) \<noteq> None" using assms(2) r by blast
    then have "calculate_late_fee_for_book e (s\<lparr>borrow_records := [r]\<rparr>) pid (rec_book_id r)
        = late_fee_of_due_date (now e) (due_date r)"
      using assms(1) r(2) by (rule single_record_fee [rotated 2])
    then show ?thesis
      using r by (simp add: total)
  qed
  from a b show ?thesis by blast
qed

lemma two_overdue_fee_1:
  "fee_amount (calculate_late_fee_for_book example_env
      (two_overdue_store\<lparr>borrow_records := [example_record]\<rparr>) ''123456'' 1) = 13 / 2"
  using example_patron_valid late_fee_examples(3)
  by (simp add: calculate_late_fee_for_book_def get_book_by_id_def find_borrow_record_def
      get_patron_borrowed_books_def borrowed_book_of_def unreturned_by_def
      two_overdue_store_def example_book_def example_record_def example_env_def
      late_fee_of_due_date_schedule days_of_def microseconds_per_day_def)

lemma two_overdue_fee_2:
  "fee_amount (calculate_late_fee_for_book example_env
      (two_overdue_store\<lparr>borrow_records :=
         [\<lparr>rec_patron_id = ''123456'', rec_book_id = 2, borrow_date = - 1209600000000,
           due_date = 432000000000, return_date = None\<rparr>]\<rparr>) ''123456'' 2) = 5 / 2"
  using example_patron_valid
  by (simp add: calculate_late_fee_for_book_def get_book_by_id_def find_borrow_record_def
      get_patron_borrowed_books_def borrowed_book_of_def unreturned_by_def
      two_overdue_store_def example_book_def example_env_def
      late_fee_of_due_date_schedule days_of_def microseconds_per_day_def)

theorem report_total_agrees_witness:
  "\<not> patron_id_invalid ''123456'' \<and>
   list_all (\<lambda>r. get_book_by_id two_overdue_store (rec_book_id r) \<noteq> None)
     (borrow_records two_overdue_store) \<and>
   total_late_fees (get_patron_status_report example_env two_overdue_store ''123456'') = 9 \<and>
   fee_amount (calculate_late_fee_for_book example_env
      (two_overdue_store\<lparr>borrow_records := [example_record]\<rparr>) ''123456'' 1) = 13 / 2 \<and>
   total_late_fees (get_patron_status_report example_env
      (two_overdue_store\<lparr>borrow_records := [example_record]\<rparr>) ''123456'') = 13 / 2"
proof -
  have h: "list_all (\<lambda>r. get_book_by_id two_overdue_store (rec_book_id r) \<noteq> None)
     (borrow_records two_overdue_store)"
    by (simp add: two_overdue_store_def get_book_by_id_def example_book_def example_record_def)
  then have h': "\<forall>r\<in>set (borrow_records two_overdue_store). unreturned_by ''123456'' r \<longrightarrow>
      get_book_by_id two_overdue_store (rec_book_id r) \<noteq> None"
    by (simp add: list_all_iff)
  have f: "filter (\<lambda>r. unreturned_by ''123456'' r \<and> due_date r < now example_env)
      (borrow_records two_overdue_store) =
      [example_record,
       \<lparr>rec_patron_id = ''123456'', rec_book_id = 2, borrow_date = - 1209600000000,
         due_date = 432000000000, return_date = None\<rparr>]"
    by (simp add: two_overdue_store_def example_record_def example_env_def unreturned_by_def)
  have m: "example_record \<in> set (borrow_records two_overdue_store) \<and>
      unreturned_by ''123456'' example_record \<and> due_date example_record < now example_env"
    by (simp add: two_overdue_store_def example_record_def example_env_def unreturned_by_def)
  note t = report_total_agrees [OF example_patron_valid h', of example_env]
  have a: "total_late_fees (get_patron_status_report example_env two_overdue_store ''123456'') = 9"
    using t two_overdue_fee_1 two_overdue_fee_2
    by (simp add: f example_record_def)
  have b: "total_late_fees (get_patron_status_report example_env
      (two_overdue_store\<lparr>borrow_records := [example_record]\<rparr>) ''123456'') = 13 / 2"
  proof -
    have rb: "rec_book_id example_record = 1" by (simp add: example_record_def)
    from t m have "total_late_fees (get_patron_status_report example_env
        (two_overdue_store\<lparr>borrow_records := [example_record]\<rparr>) ''123456'') =
      fee_amount (calculate_late_fee_for_book example_env
        (two_overdue_store\<lparr>borrow_records := [example_record]\<rparr>) ''123456''
        (rec_book_id example_record))"
      by blast
    then show ?thesis by (simp only: rb two_overdue_fee_1)
  qed
  from example_patron_valid h a two_overdue_fee_1 b show ?thesis by blast
qed

section \<open>Validation of a refund\<close>

text \<open>
  C7 as stated fails: a transaction id of two blanks is a non-empty string, so it passes
  the check and the gateway's \<open>refund_payment\<close> is called with it.
\<close>

theorem blank_transaction_id_counterexample:
  "strip ''  '' = [] \<and>
   refund_late_fee_payment example_env example_store (PyStr ''  '') (PyFloat (Finite 5))
      declining_gateway
     = (Inr (False, PyStr ''DECLINED''), [RefundPayment (PyStr ''  '') (Finite 5)],
        example_store)"
  by (simp add: strip_def isspace_char_def refund_late_fee_payment_def float_gt_def
      declining_gateway_def check_refund_response_def failure_message_def)

text \<open>
  C7, amended. \<open>refund_late_fee_payment\<close> rejects an empty or non-string transaction id
  (a whitespace-only id is not rejected), an amount that \<open>float\<close> cannot convert, and an
  amount at most 0 or above 15.0, each time with a failure result and no call to the
  gateway; with a non-empty string id and the amount exactly 15.0 the gateway's
  \<open>refund_payment\<close> is called with that id and 15.0.
\<close>

theorem refund_validation:
  "(\<not> truthy tid \<or> \<not> is_str tid \<longrightarrow>
      refund_late_fee_payment e s tid amount g
        = (Inr (False, PyStr ''Invalid transaction''), [], s)) \<and>
   (py_float (float_of_str e) amount = None \<longrightarrow>
      (\<exists>m. refund_late_fee_payment e s tid amount g = (Inr (False, PyStr m), [], s))) \<and>
   (\<forall>amt. py_float (float_of_str e) amount = Some amt \<and>
           (float_le amt (Finite 0) \<or> float_gt amt (Finite 15)) \<longrightarrow>
      (\<exists>m. refund_late_fee_payment e s tid amount g = (Inr (False, PyStr m), [], s))) \<and>
   (truthy tid \<and> is_str tid \<and> py_float (float_of_str e) amount = Some (Finite 15) \<longrightarrow>
      fst (snd (refund_late_fee_payment e s tid amount g)) = [RefundPayment tid (Finite 15)])"
  by (auto simp: refund_late_fee_payment_def float_gt_def split: sum.splits)

theorem refund_validation_witness:
  "refund_late_fee_payment example_env example_store (PyStr []) (PyFloat (Finite 3))
      declining_gateway = (Inr (False, PyStr ''Invalid transaction''), [], example_store) \<and>
   refund_late_fee_payment example_env example_store (PyInt 7) (PyFloat (Finite 3))
      declining_gateway = (Inr (False, PyStr ''Invalid transaction''), [], example_store) \<and>
   refund_late_fee_payment example_env example_store (PyStr ''tx'') (PyStr ''abc'')
      declining_gateway = (Inr (False, PyStr ''Invalid amount''), [], example_store) \<and>
   refund_late_fee_payment example_env example_store (PyStr ''tx'') (PyInt 0)
      declining_gateway
     = (Inr (False, PyStr (amount_range_message example_env)), [], example_store) \<and>
   refund_late_fee_payment example_env example_store (PyStr ''tx'') (PyFloat (Finite 16))
      declining_gateway
     = (Inr (False, PyStr (amount_range_message example_env)), [], example_store) \<and>
   fst (snd (refund_late_fee_payment example_env example_store (PyStr ''tx'')
      (PyFloat (Finite 15)) declining_gateway)) = [RefundPayment (PyStr ''tx'') (Finite 15)]"
proof -
  have a: "refund_late_fee_payment example_env example_store (PyStr []) (PyFloat (Finite 3))
      declining_gateway = (Inr (False, PyStr ''Invalid transaction''), [], example_store)"
    using refund_validation [of "PyStr []" example_env example_store "PyFloat (Finite 3)"
        declining_gateway] by simp
  have b: "refund_late_fee_payment example_env example_store (PyInt 7) (PyFloat (Finite 3))
      declining_gateway = (Inr (False, PyStr ''Invalid transaction''), [], example_store)"
    using refund_validation [of "PyInt 7" example_env example_store "PyFloat (Finite 3)"
        declining_gateway] by simp
  have c: "refund_late_fee_payment example_env example_store (PyStr ''tx'') (PyStr ''abc'')
      declining_gateway = (Inr (False, PyStr ''Invalid amount''), [], example_store)"
    by (simp add: refund_late_fee_payment_def example_env_def)
  have d: "refund_late_fee_payment example_env example_store (PyStr ''tx'') (PyInt 0)
      declining_gateway
     = (Inr (False, PyStr (amount_range_message example_env)), [], example_store)"
    by (simp add: refund_late_fee_payment_def)
  have e: "refund_late_fee_payment example_env example_store (PyStr ''tx'') (PyFloat (Finite 16))
      declining_gateway
     = (Inr (False, PyStr (amount_range_message example_env)), [], example_store)"
    by (simp add: refund_late_fee_payment_def float_gt_def)
  have f: "fst (snd (refund_late_fee_payment example_env example_store (PyStr ''tx'')
      (PyFloat (Finite 15)) declining_gateway)) = [RefundPayment (PyStr ''tx'') (Finite 15)]"
    using refund_validation [of "PyStr ''tx''" example_env example_store "PyFloat (Finite 15)"
        declining_gateway] by simp
  from a b c d e f show ?thesis by blast
qed

section \<open>A book borrowed twice by one patron\<close>

text \<open>
  \<open>borrow_book_by_patron\<close> does not ask whether the patron already holds the book, so a
  patron can hold two unreturned records of it. What a return then does rests on the
  store's write. If it closes every record of the pair, the return adds one copy for two
  closed records and the invariant of the data model is lost, while a second return finds
  no record. If it closes one record, the invariant is kept, while a second return
  succeeds on the record still open.
\<close>

lemma twice_borrowed_eq:
  "fst (fst (borrow_book_by_patron example_env example_store ''123456'' 1)) = True \<and>
   twice_borrowed =
     \<lparr>books = [example_book\<lparr>available_copies := 1\<rparr>],
      borrow_records = [example_record,
        \<lparr>rec_patron_id = ''123456'', rec_book_id = 1, borrow_date = 864000000005,
         due_date = 2073600000005, return_date = None\<rparr>]\<rparr>"
  using example_patron_valid example_book_found
  by (simp add: twice_borrowed_def borrow_book_by_patron_def get_patron_borrow_count_def
      insert_borrow_record_def update_book_availability_def change_availability_def
      timedelta_days_def microseconds_per_day_def unreturned_by_def Let_def
      example_store_def example_book_def example_record_def example_env_def)

lemma twice_borrowed_invariant: "copies_invariant twice_borrowed"
  by (simp add: twice_borrowed_eq copies_invariant_def book_invariant_def unreturned_count_def
      open_for_def example_book_def example_record_def)

lemma return_closing_every:
  "return_book_by_patron example_env twice_borrowed ''123456'' 1 =
     ((True, ''Successfully returned '' @ [CHR 0x22] @ ''T'' @ [CHR 0x22] @
             ''. Return date: '' @ str_int 864000000005 @ ''.''),
      \<lparr>books = [example_book],
       borrow_records = [example_record\<lparr>return_date := Some 864000000005\<rparr>,
        \<lparr>rec_patron_id = ''123456'', rec_book_id = 1, borrow_date = 864000000005,
         due_date = 2073600000005, return_date = Some 864000000005\<rparr>]\<rparr>)"
  using example_patron_valid
  by (simp add: twice_borrowed_eq return_book_by_patron_def get_book_by_id_def
      find_borrow_record_def get_patron_borrowed_books_def borrowed_book_of_def
      update_borrow_record_return_date_def close_every_def
      update_book_availability_def change_availability_def unreturned_by_def Let_def
      example_book_def example_record_def example_env_def)

lemma return_closing_first:
  "return_book_by_patron first_closing_env twice_borrowed ''123456'' 1 =
     ((True, ''Successfully returned '' @ [CHR 0x22] @ ''T'' @ [CHR 0x22] @
             ''. Return date: '' @ str_int 864000000005 @ ''.''),
      \<lparr>books = [example_book],
       borrow_records = [example_record\<lparr>return_date := Some 864000000005\<rparr>,
        \<lparr>rec_patron_id = ''123456'', rec_book_id = 1, borrow_date = 864000000005,
         due_date = 2073600000005, return_date = None\<rparr>]\<rparr>)"
  using example_patron_valid
  by (simp add: twice_borrowed_eq return_book_by_patron_def get_book_by_id_def
      find_borrow_record_def get_patron_borrowed_books_def borrowed_book_of_def
      update_borrow_record_return_date_def first_closing_env_def
      update_book_availability_def change_availability_def unreturned_by_def Let_def
      example_book_def example_record_def example_env_def)

lemma twice_borrowed_closing_every:
  "\<not> copies_invariant (snd (return_book_by_patron example_env twice_borrowed ''123456'' 1)) \<and>
   fst (fst (return_book_by_patron example_env
       (snd (return_book_by_patron example_env twice_borrowed ''123456'' 1)) ''123456'' 1))
     = False"
  unfolding return_closing_every snd_conv
  using example_patron_valid
  by (simp add: copies_invariant_def book_invariant_def
      unreturned_count_def open_for_def return_book_by_patron_def get_book_by_id_def
      find_borrow_record_def get_patron_borrowed_books_def borrowed_book_of_def
      unreturned_by_def example_book_def example_record_def)

lemma twice_borrowed_closing_first:
  "copies_invariant (snd (return_book_by_patron first_closing_env twice_borrowed ''123456'' 1)) \<and>
   fst (fst (return_book_by_patron first_closing_env
       (snd (return_book_by_patron first_closing_env twice_borrowed ''123456'' 1)) ''123456'' 1))
     = True"
  unfolding return_closing_first snd_conv
  using example_patron_valid
  by (simp add: copies_invariant_def book_invariant_def
      unreturned_count_def open_for_def return_book_by_patron_def get_book_by_id_def
      find_borrow_record_def get_patron_borrowed_books_def borrowed_book_of_def
      update_borrow_record_return_date_def first_closing_env_def
      update_book_availability_def change_availability_def Let_def
      unreturned_by_def example_book_def example_record_def example_env_def)

end
